theory Spec2Isabelle
  imports Main "HOL-Library.AList"
begin

section \<open>Python values handled by tweepy/api.py\<close>

text \<open>
  The module is Python 2 code: \<open>str\<close> is a byte string, modelled as \<open>string\<close>
  (a list of 8-bit characters). A \<open>unicode\<close> object is represented by its UTF-8
  encoding, so that \<open>filename.encode("utf-8")\<close> is the projection of that encoding.
\<close>

datatype pystring = Str string | Unicode string

fun encode_utf8 :: "pystring \<Rightarrow> string" where
  "encode_utf8 (Str s) = s"
| "encode_utf8 (Unicode u) = u"

text \<open>Elements of the id and screen-name lists given to the bulk calls.\<close>

datatype scalar = SInt int | SStr string

text \<open>
  Instances of classes: \<open>ModelParser()\<close>, an instance of some other class derived from
  \<open>Parser\<close>, or an instance of a class that does not derive from \<open>Parser\<close>. The class
  hierarchy itself lives in tweepy/parsers.py; api.py imports \<open>ModelParser\<close> and
  \<open>Parser\<close> from it and checks its own default \<open>ModelParser()\<close> against \<open>Parser\<close>.
\<close>

datatype pyobject = ModelParserInst | ParserInst string | OtherInst string

datatype pyval =
    PNone
  | PBool bool
  | PInt int
  | PStr string
  | PList "scalar list"
  | PDict "(string \<times> pyval) list"
  | PFile string
  | PObject pyobject
  | PSelf

text \<open>
  \<open>PFile content\<close> is an open file object with the given content; \<open>PSelf\<close> is the
  \<open>API\<close> instance on which a method runs, when the method passes \<open>self\<close> on.
\<close>

text \<open>Python truth value testing, as used by \<open>parser or ModelParser()\<close> and \<open>if proxy:\<close>.\<close>

fun truthy :: "pyval \<Rightarrow> bool" where
  "truthy PNone = False"
| "truthy (PBool b) = b"
| "truthy (PInt i) = (i \<noteq> 0)"
| "truthy (PStr s) = (s \<noteq> [])"
| "truthy (PList xs) = (xs \<noteq> [])"
| "truthy (PDict kvs) = (kvs \<noteq> [])"
| "truthy (PFile c) = True"
| "truthy (PObject ob) = True"
| "truthy PSelf = True"

text \<open>\<open>isinstance(v, Parser)\<close>.\<close>

fun isinstance_Parser :: "pyval \<Rightarrow> bool" where
  "isinstance_Parser (PObject ModelParserInst) = True"
| "isinstance_Parser (PObject (ParserInst c)) = True"
| "isinstance_Parser v = False"

subsection \<open>\<open>str\<close> of numbers, \<open>str.join\<close>\<close>

fun str_nat :: "nat \<Rightarrow> string" where
  "str_nat n =
     (if n < 10 then [char_of (48 + n)]
      else str_nat (n div 10) @ [char_of (48 + n mod 10)])"

declare str_nat.simps [simp del]

definition str_int :: "int \<Rightarrow> string" where
  "str_int i = (if i < 0 then CHR ''-'' # str_nat (nat (- i)) else str_nat (nat i))"

fun str_form :: "scalar \<Rightarrow> string" where
  "str_form (SInt i) = str_int i"
| "str_form (SStr s) = s"

text \<open>\<open>sep.join(xs)\<close>\<close>

fun join :: "string \<Rightarrow> string list \<Rightarrow> string" where
  "join sep [] = []"
| "join sep [x] = x"
| "join sep (x # y # ys) = x @ sep @ join sep (y # ys)"

text \<open>\<open>'%s' % v\<close> for a value that is \<open>None\<close> or a \<open>str\<close>.\<close>

fun percent_s :: "string option \<Rightarrow> string" where
  "percent_s None = ''None''"
| "percent_s (Some s) = s"

section \<open>Errors\<close>

text \<open>
  \<open>TweepError(reason)\<close> has a \<open>response\<close> attribute (\<open>None\<close> unless the raiser
  supplies one), whose \<open>status\<close> \<open>verify_credentials\<close> reads. The class of the
  response object is not among the sources, so its truth value (what \<open>bool(response)\<close>
  gives: true for a plain object, whatever \<open>__nonzero__\<close> or \<open>__len__\<close> say for a
  class that defines them) is a field of the model: \<open>e.response and ...\<close> tests it.
  \<open>IOError\<close> is what
  \<open>open\<close> raises, \<open>AttributeError\<close> what \<open>f.seek\<close> raises on a value that is no
  file object, \<open>TypeError\<close> what the constructor raises (it carries the rejected
  parser, whose type the message prints).
\<close>

record response =
  status :: int
  truth_value :: bool

datatype error =
    TweepError string "response option"
  | IOError
  | AttributeError
  | TypeError pyval

section \<open>The operating system and the standard library\<close>

text \<open>
  \<open>os.path.getsize\<close> (\<open>None\<close>: it raises \<open>os.error\<close>), \<open>open(filename, 'rb')\<close>
  followed by \<open>read()\<close> (\<open>None\<close>: \<open>open\<close> raises), \<open>mimetypes.guess_type\<close> (a pair
  of type and encoding, each possibly \<open>None\<close>; the outer \<open>None\<close> is the value the code
  tests for) and \<open>urllib.quote\<close> are outside the repository: they are parameters.
\<close>

record env =
  getsize :: "pystring \<Rightarrow> nat option"
  open_rb :: "pystring \<Rightarrow> string option"
  guess_type :: "pystring \<Rightarrow> (string option \<times> string option) option"
  quote :: "string \<Rightarrow> string"

section \<open>\<open>API._pack_image\<close>\<close>

definition CRLF :: string where
  "CRLF = [CHR 0x0D, CHR 0x0A]"

definition BOUNDARY :: string where
  "BOUNDARY = ''Tw3ePy''"

definition too_big :: error where
  "too_big = TweepError ''File is too big, must be less than 700kb.'' None"

definition image_types :: "string list" where
  "image_types = [''image/gif'', ''image/jpeg'', ''image/png'']"

text \<open>
  The first block of \<open>_pack_image\<close>: the size check and the file whose content will
  be read, by path (\<open>f is None\<close>) or from the file object \<open>f\<close>.
\<close>

definition checked_source :: "env \<Rightarrow> pystring \<Rightarrow> int \<Rightarrow> pyval \<Rightarrow> error + string" where
  "checked_source e filename max_size f =
     (case f of
        PNone \<Rightarrow>
          (case getsize e filename of
             None \<Rightarrow> Inl (TweepError ''Unable to access file'' None)
           | Some n \<Rightarrow>
               if int n > max_size * 1024 then Inl too_big
               else (case open_rb e filename of
                       None \<Rightarrow> Inl IOError
                     | Some content \<Rightarrow> Inr content))
      | PFile content \<Rightarrow>
          if int (length content) > max_size * 1024 then Inl too_big
          else Inr content
      | _ \<Rightarrow> Inl AttributeError)"

definition pack_image ::
  "env \<Rightarrow> pystring \<Rightarrow> int \<Rightarrow> string \<Rightarrow> pyval \<Rightarrow> error + ((string \<times> string) list \<times> string)" where
  \<open>pack_image e filename max_size form_field f =
     (case checked_source e filename max_size f of
        Inl err \<Rightarrow> Inl err
      | Inr content \<Rightarrow>
          (case guess_type e filename of
             None \<Rightarrow> Inl (TweepError ''Could not determine file type'' None)
           | Some (file_type, encoding) \<Rightarrow>
               (case file_type of
                  None \<Rightarrow> Inl (TweepError (''Invalid file type for image: '' @ percent_s None) None)
                | Some t \<Rightarrow>
                    if t \<notin> set image_types
                    then Inl (TweepError (''Invalid file type for image: '' @ percent_s (Some t)) None)
                    else
                      (let filename' = quote e (encode_utf8 filename);
                           body = join CRLF
                             [''--'' @ BOUNDARY,
                              ''Content-Disposition: form-data; name="'' @ form_field
                                @ ''"; filename="'' @ filename' @ ''"'',
                              ''Content-Type: '' @ t,
                              [],
                              content,
                              ''--'' @ BOUNDARY @ ''--'',
                              []]
                       in Inr ([(''Content-Type'', ''multipart/form-data; boundary=Tw3ePy''),
                                (''Content-Length'', str_nat (length body))],
                               body)))))\<close>

section \<open>The \<open>API\<close> object and its constructor\<close>

record API =
  auth :: pyval
  host :: pyval
  search_host :: pyval
  api_root :: pyval
  search_root :: pyval
  cache :: pyval
  compression :: pyval
  retry_count :: pyval
  retry_delay :: pyval
  retry_errors :: pyval
  timeout :: pyval
  wait_on_rate_limit :: pyval
  wait_on_rate_limit_notify :: pyval
  parser :: pyval
  proxy :: pyval

text \<open>
  The keyword arguments of \<open>API.__init__\<close>: \<open>None\<close> for an argument the caller leaves
  out, \<open>Some v\<close> for one it passes.
\<close>

record init_args =
  kw_auth_handler :: "pyval option"
  kw_host :: "pyval option"
  kw_search_host :: "pyval option"
  kw_cache :: "pyval option"
  kw_api_root :: "pyval option"
  kw_search_root :: "pyval option"
  kw_retry_count :: "pyval option"
  kw_retry_delay :: "pyval option"
  kw_retry_errors :: "pyval option"
  kw_timeout :: "pyval option"
  kw_parser :: "pyval option"
  kw_compression :: "pyval option"
  kw_wait_on_rate_limit :: "pyval option"
  kw_wait_on_rate_limit_notify :: "pyval option"
  kw_proxy :: "pyval option"

definition no_args :: init_args where
  "no_args =
     \<lparr>kw_auth_handler = None, kw_host = None, kw_search_host = None, kw_cache = None,
      kw_api_root = None, kw_search_root = None, kw_retry_count = None,
      kw_retry_delay = None, kw_retry_errors = None, kw_timeout = None, kw_parser = None,
      kw_compression = None, kw_wait_on_rate_limit = None,
      kw_wait_on_rate_limit_notify = None, kw_proxy = None\<rparr>"

definition arg_or :: "pyval option \<Rightarrow> pyval \<Rightarrow> pyval" where
  "arg_or a d = (case a of None \<Rightarrow> d | Some v \<Rightarrow> v)"

definition API_init :: "init_args \<Rightarrow> error + API" where
  "API_init a =
     (let auth_handler = arg_or (kw_auth_handler a) PNone;
          host' = arg_or (kw_host a) (PStr ''api.twitter.com'');
          search_host' = arg_or (kw_search_host a) (PStr ''search.twitter.com'');
          cache' = arg_or (kw_cache a) PNone;
          api_root' = arg_or (kw_api_root a) (PStr ''/1.1'');
          search_root' = arg_or (kw_search_root a) (PStr []);
          retry_count' = arg_or (kw_retry_count a) (PInt 0);
          retry_delay' = arg_or (kw_retry_delay a) (PInt 0);
          retry_errors' = arg_or (kw_retry_errors a) PNone;
          timeout' = arg_or (kw_timeout a) (PInt 60);
          parser_arg = arg_or (kw_parser a) PNone;
          compression' = arg_or (kw_compression a) (PBool False);
          wait_on_rate_limit' = arg_or (kw_wait_on_rate_limit a) (PBool False);
          wait_on_rate_limit_notify' = arg_or (kw_wait_on_rate_limit_notify a) (PBool False);
          proxy_arg = arg_or (kw_proxy a) (PStr []);
          self = \<lparr>auth = auth_handler,
                  host = host',
                  search_host = search_host',
                  api_root = api_root',
                  search_root = search_root',
                  cache = cache',
                  compression = compression',
                  retry_count = retry_count',
                  retry_delay = retry_delay',
                  retry_errors = retry_errors',
                  timeout = timeout',
                  wait_on_rate_limit = wait_on_rate_limit',
                  wait_on_rate_limit_notify = wait_on_rate_limit_notify',
                  parser = (if truthy parser_arg then parser_arg else PObject ModelParserInst),
                  proxy = PDict (if truthy proxy_arg then [(''https'', proxy_arg)] else [])\<rparr>
      in if \<not> isinstance_Parser (parser self) then Inl (TypeError (parser self))
         else Inr self)"

section \<open>Bound endpoints\<close>

text \<open>
  The keyword arguments of a \<open>bind_api(...)\<close> call. \<open>api\<close> and \<open>path\<close> are always
  given; for the others \<open>None\<close> says that the call leaves the keyword out.
  The field \<open>http_method\<close> is the keyword \<open>method\<close>.
\<close>

record config =
  api :: API
  path :: string
  http_method :: "string option"
  payload_type :: "string option"
  payload_list :: "bool option"
  allowed_param :: "string list option"
  require_auth :: "bool option"
  use_cache :: "bool option"

text \<open>
  \<open>bind_api\<close> is imported from another module of the package, which is not among the
  sources: the methods below take it as a parameter. \<open>bind_api cfg args kwargs w\<close> is the call
  \<open>bind_api(**cfg)(*args, **kwargs)\<close> made when the network is in state \<open>w\<close>; it
  returns the decoded value or the exception raised, and the network's new state. All
  network traffic of api.py goes through it.
\<close>

type_synonym kwargs = "(string \<times> pyval) list"

type_synonym 'w bound_api = "config \<Rightarrow> pyval list \<Rightarrow> kwargs \<Rightarrow> 'w \<Rightarrow> (error + pyval) \<times> 'w"

text \<open>\<open>kwargs.pop(k, None)\<close>: the value, and the dictionary without the key.\<close>

definition pop_or_None :: "string \<Rightarrow> kwargs \<Rightarrow> pyval \<times> kwargs" where
  "pop_or_None k kw =
     ((case map_of kw k of None \<Rightarrow> PNone | Some v \<Rightarrow> v), AList.delete k kw)"

text \<open>The headers dictionary as a Python value.\<close>

definition headers_val :: "(string \<times> string) list \<Rightarrow> pyval" where
  "headers_val hs = PDict (map (\<lambda>(k, v). (k, PStr v)) hs)"

definition home_timeline :: "API \<Rightarrow> config" where
  "home_timeline self =
     \<lparr>api = self, path = ''/statuses/home_timeline.json'', http_method = None,
      payload_type = Some ''status'', payload_list = Some True,
      allowed_param = Some [''since_id'', ''max_id'', ''count''],
      require_auth = Some True, use_cache = None\<rparr>"

definition priv_statuses_lookup :: "API \<Rightarrow> config" where
  "priv_statuses_lookup self =
     \<lparr>api = self, path = ''/statuses/lookup.json'', http_method = None,
      payload_type = Some ''status'', payload_list = Some True,
      allowed_param = Some [''id'', ''include_entities'', ''trim_user'', ''map''],
      require_auth = Some True, use_cache = None\<rparr>"

definition priv_lookup_users :: "API \<Rightarrow> config" where
  "priv_lookup_users self =
     \<lparr>api = self, path = ''/users/lookup.json'', http_method = None,
      payload_type = Some ''user'', payload_list = Some True,
      allowed_param = Some [''user_id'', ''screen_name''],
      require_auth = None, use_cache = None\<rparr>"

definition priv_lookup_friendships :: "API \<Rightarrow> config" where
  "priv_lookup_friendships self =
     \<lparr>api = self, path = ''/friendships/lookup.json'', http_method = None,
      payload_type = Some ''relationship'', payload_list = Some True,
      allowed_param = Some [''user_id'', ''screen_name''],
      require_auth = Some True, use_cache = None\<rparr>"

definition priv_add_list_members :: "API \<Rightarrow> config" where
  "priv_add_list_members self =
     \<lparr>api = self, path = ''/lists/members/create_all.json'', http_method = Some ''POST'',
      payload_type = Some ''list'', payload_list = None,
      allowed_param = Some [''screen_name'', ''user_id'', ''slug'', ''lit_id'', ''owner_id'',
                            ''owner_screen_name''],
      require_auth = Some True, use_cache = None\<rparr>"

definition priv_remove_list_members :: "API \<Rightarrow> config" where
  "priv_remove_list_members self =
     \<lparr>api = self, path = ''/lists/members/destroy_all.json'', http_method = Some ''POST'',
      payload_type = Some ''list'', payload_list = None,
      allowed_param = Some [''screen_name'', ''user_id'', ''slug'', ''lit_id'', ''owner_id'',
                            ''owner_screen_name''],
      require_auth = Some True, use_cache = None\<rparr>"

subsection \<open>Bulk calls\<close>

text \<open>
  Modelled from the spec: \<open>list_to_csv\<close> of tweepy/utils.py, which is not among the
  sources. The spec says that list-valued arguments are flattened to comma-joined
  strings before transmission, the transmitted value being the comma-join of the
  list's string forms, in original order. It says nothing of other values, which are
  left as they are.
\<close>

fun list_to_csv :: "pyval \<Rightarrow> pyval" where
  "list_to_csv (PList xs) = PStr (join '','' (map str_form xs))"
| "list_to_csv v = v"

text \<open>An argument with default \<open>None\<close> that the caller leaves out is \<open>PNone\<close>.\<close>

definition statuses_lookup ::
  "'w bound_api \<Rightarrow> API \<Rightarrow> pyval \<Rightarrow> pyval \<Rightarrow> pyval \<Rightarrow> pyval \<Rightarrow> 'w \<Rightarrow> (error + pyval) \<times> 'w" where
  "statuses_lookup bind_api self ids include_entities trim_user map_arg w =
     bind_api (priv_statuses_lookup self)
       [list_to_csv ids, include_entities, trim_user, map_arg] [] w"

definition lookup_users ::
  "'w bound_api \<Rightarrow> API \<Rightarrow> pyval \<Rightarrow> pyval \<Rightarrow> 'w \<Rightarrow> (error + pyval) \<times> 'w" where
  "lookup_users bind_api self user_ids screen_names w =
     bind_api (priv_lookup_users self) [list_to_csv user_ids, list_to_csv screen_names] [] w"

definition lookup_friendships ::
  "'w bound_api \<Rightarrow> API \<Rightarrow> pyval \<Rightarrow> pyval \<Rightarrow> 'w \<Rightarrow> (error + pyval) \<times> 'w" where
  "lookup_friendships bind_api self user_ids screen_names w =
     bind_api (priv_lookup_friendships self)
       [list_to_csv user_ids, list_to_csv screen_names] [] w"

definition add_list_members ::
  "'w bound_api \<Rightarrow> API \<Rightarrow> pyval \<Rightarrow> pyval \<Rightarrow> pyval \<Rightarrow> pyval \<Rightarrow> pyval \<Rightarrow> pyval \<Rightarrow> 'w
     \<Rightarrow> (error + pyval) \<times> 'w" where
  "add_list_members bind_api self screen_name user_id slug list_id owner_id owner_screen_name w =
     bind_api (priv_add_list_members self)
       [list_to_csv screen_name, list_to_csv user_id, slug, list_id, owner_id,
        owner_screen_name] [] w"

definition remove_list_members ::
  "'w bound_api \<Rightarrow> API \<Rightarrow> pyval \<Rightarrow> pyval \<Rightarrow> pyval \<Rightarrow> pyval \<Rightarrow> pyval \<Rightarrow> pyval \<Rightarrow> 'w
     \<Rightarrow> (error + pyval) \<times> 'w" where
  "remove_list_members bind_api self screen_name user_id slug list_id owner_id owner_screen_name w =
     bind_api (priv_remove_list_members self)
       [list_to_csv screen_name, list_to_csv user_id, slug, list_id, owner_id,
        owner_screen_name] [] w"

subsection \<open>\<open>verify_credentials\<close>\<close>

definition verify_credentials_endpoint :: "API \<Rightarrow> config" where
  "verify_credentials_endpoint self =
     \<lparr>api = self, path = ''/account/verify_credentials.json'', http_method = None,
      payload_type = Some ''user'', payload_list = None,
      allowed_param = Some [''include_entities'', ''skip_status''],
      require_auth = Some True, use_cache = None\<rparr>"

definition verify_credentials ::
  "'w bound_api \<Rightarrow> API \<Rightarrow> kwargs \<Rightarrow> 'w \<Rightarrow> (error + pyval) \<times> 'w" where
  "verify_credentials bind_api self kargs w =
     (case bind_api (verify_credentials_endpoint self) [] kargs w of
        (Inr v, w') \<Rightarrow> (Inr v, w')
      | (Inl (TweepError reason resp), w') \<Rightarrow>
          if (case resp of None \<Rightarrow> False | Some r \<Rightarrow> truth_value r \<and> status r = 401)
          then (Inr (PBool False), w')
          else (Inl (TweepError reason resp), w')
      | (Inl err, w') \<Rightarrow> (Inl err, w'))"

subsection \<open>Upload calls\<close>

text \<open>The endpoints that the upload methods bind when they run.\<close>

definition update_with_media_endpoint :: "API \<Rightarrow> config" where
  "update_with_media_endpoint self =
     \<lparr>api = self, path = ''/statuses/update_with_media.json'', http_method = Some ''POST'',
      payload_type = Some ''status'', payload_list = None,
      allowed_param = Some [''status'', ''possibly_sensitive'', ''in_reply_to_status_id'',
                            ''lat'', ''long'', ''place_id'', ''display_coordinates''],
      require_auth = Some True, use_cache = None\<rparr>"

definition update_profile_image_endpoint :: "API \<Rightarrow> config" where
  "update_profile_image_endpoint self =
     \<lparr>api = self, path = ''/account/update_profile_image.json'', http_method = Some ''POST'',
      payload_type = Some ''user'', payload_list = None, allowed_param = None,
      require_auth = Some True, use_cache = None\<rparr>"

definition update_profile_background_image_endpoint :: "API \<Rightarrow> config" where
  "update_profile_background_image_endpoint self =
     \<lparr>api = self, path = ''/account/update_profile_background_image.json'',
      http_method = Some ''POST'', payload_type = Some ''user'', payload_list = None,
      allowed_param = Some [''tile'', ''include_entities'', ''skip_status'', ''use''],
      require_auth = Some True, use_cache = None\<rparr>"

definition update_profile_banner_endpoint :: "API \<Rightarrow> config" where
  "update_profile_banner_endpoint self =
     \<lparr>api = self, path = ''/account/update_profile_banner.json'',
      http_method = Some ''POST'', payload_type = None, payload_list = None,
      allowed_param = Some [''width'', ''height'', ''offset_left'', ''offset_right''],
      require_auth = Some True, use_cache = None\<rparr>"

definition update_with_media ::
  "env \<Rightarrow> 'w bound_api \<Rightarrow> API \<Rightarrow> pystring \<Rightarrow> pyval list \<Rightarrow> kwargs \<Rightarrow> 'w \<Rightarrow> (error + pyval) \<times> 'w" where
  "update_with_media e bind_api self filename args kwargs w =
     (let (f, kwargs1) = pop_or_None ''file'' kwargs in
      case pack_image e filename 3072 ''media[]'' f of
        Inl err \<Rightarrow> (Inl err, w)
      | Inr (headers, post_data) \<Rightarrow>
          bind_api (update_with_media_endpoint self) args
            (AList.update ''post_data'' (PStr post_data)
               (AList.update ''headers'' (headers_val headers) kwargs1))
            w)"

definition update_profile_image ::
  "env \<Rightarrow> 'w bound_api \<Rightarrow> API \<Rightarrow> pystring \<Rightarrow> pyval \<Rightarrow> 'w \<Rightarrow> (error + pyval) \<times> 'w" where
  "update_profile_image e bind_api self filename file_arg w =
     (case pack_image e filename 700 ''image'' file_arg of
        Inl err \<Rightarrow> (Inl err, w)
      | Inr (headers, post_data) \<Rightarrow>
          bind_api (update_profile_image_endpoint self) [PSelf]
            [(''post_data'', PStr post_data), (''headers'', headers_val headers)]
            w)"

text \<open>
  The next two methods have no \<open>return\<close>: they return \<open>None\<close> when the bound call
  returns, and raise what it raises.
\<close>

definition update_profile_background_image ::
  "env \<Rightarrow> 'w bound_api \<Rightarrow> API \<Rightarrow> pystring \<Rightarrow> kwargs \<Rightarrow> 'w \<Rightarrow> (error + pyval) \<times> 'w" where
  "update_profile_background_image e bind_api self filename kargs w =
     (let (f, kargs1) = pop_or_None ''file'' kargs in
      case pack_image e filename 800 ''image'' f of
        Inl err \<Rightarrow> (Inl err, w)
      | Inr (headers, post_data) \<Rightarrow>
          (case bind_api (update_profile_background_image_endpoint self) [PSelf]
                  [(''post_data'', PStr post_data), (''headers'', headers_val headers)]
                  w of
             (Inl err, w') \<Rightarrow> (Inl err, w')
           | (Inr v, w') \<Rightarrow> (Inr PNone, w')))"

definition update_profile_banner ::
  "env \<Rightarrow> 'w bound_api \<Rightarrow> API \<Rightarrow> pystring \<Rightarrow> kwargs \<Rightarrow> 'w \<Rightarrow> (error + pyval) \<times> 'w" where
  "update_profile_banner e bind_api self filename kargs w =
     (let (f, kargs1) = pop_or_None ''file'' kargs in
      case pack_image e filename 700 ''banner'' f of
        Inl err \<Rightarrow> (Inl err, w)
      | Inr (headers, post_data) \<Rightarrow>
          (case bind_api (update_profile_banner_endpoint self) [PSelf]
                  [(''post_data'', PStr post_data), (''headers'', headers_val headers)]
                  w of
             (Inl err, w') \<Rightarrow> (Inl err, w')
           | (Inr v, w') \<Rightarrow> (Inr PNone, w')))"

section \<open>The request engine, from the spec\<close>

text \<open>
  Modelled from the spec: \<open>execute\<close>, the entry of the request engine behind
  \<open>bind_api\<close>, whose module is not among the sources. The spec (4.1) has it reject any
  argument name absent from the descriptor's allowed set, then reject a call that
  requires authentication when no Authenticator is configured, both before any
  input or output; everything later (request construction, cache, dispatch, retries,
  decoding) is the parameter \<open>perform\<close>, the only part that touches the network
  state. Call Arguments are an ordered mapping from parameter name to value.
\<close>

datatype failure = ValidationError | AuthError

definition allowed :: "config \<Rightarrow> string list" where
  "allowed d = (case allowed_param d of None \<Rightarrow> [] | Some names \<Rightarrow> names)"

definition execute ::
  "config \<Rightarrow> kwargs \<Rightarrow> (config \<Rightarrow> kwargs \<Rightarrow> 'w \<Rightarrow> 'r \<times> 'w) \<Rightarrow> 'w \<Rightarrow> (failure + 'r) \<times> 'w" where
  "execute d args perform w =
     (if list_ex (\<lambda>name. name \<notin> set (allowed d)) (map fst args) then (Inl ValidationError, w)
      else if require_auth d = Some True \<and> auth (api d) = PNone then (Inl AuthError, w)
      else (case perform d args w of (r, w') \<Rightarrow> (Inr r, w')))"

section \<open>Notions used to state the properties\<close>

text \<open>
  The byte length of the source of an upload: of the named file when no file object
  is supplied, of the file object otherwise.
\<close>

definition source_size :: "env \<Rightarrow> pystring \<Rightarrow> pyval \<Rightarrow> nat option" where
  "source_size e filename f =
     (case f of
        PNone \<Rightarrow> getsize e filename
      | PFile content \<Rightarrow> Some (length content)
      | _ \<Rightarrow> None)"

text \<open>The source can be read: \<open>open\<close> succeeds on the named file, or a file object is given.\<close>

definition readable :: "env \<Rightarrow> pystring \<Rightarrow> pyval \<Rightarrow> bool" where
  "readable e filename f =
     (case f of
        PNone \<Rightarrow> open_rb e filename \<noteq> None
      | PFile content \<Rightarrow> True
      | _ \<Rightarrow> False)"

text \<open>The \<open>file\<close> keyword argument of a call, \<open>None\<close> when it is absent.\<close>

definition file_kwarg :: "kwargs \<Rightarrow> pyval" where
  "file_kwarg kw = fst (pop_or_None ''file'' kw)"

text \<open>A \<open>TweepError\<close> whose response is a true value and has status 401.\<close>

fun true_401 :: "error \<Rightarrow> bool" where
  "true_401 (TweepError reason (Some r)) = (truth_value r \<and> status r = 401)"
| "true_401 err = False"

text \<open>The number that a string of decimal digits denotes.\<close>

definition dec_value :: "string \<Rightarrow> nat" where
  "dec_value s = foldl (\<lambda>a c. 10 * a + (of_char c - 48)) 0 s"


subsection \<open>A concrete environment\<close>

text \<open>
  A file system with five files, a type table for their names, and a bound call that
  counts the requests it is asked to make. The theorems below are instantiated here.
\<close>

definition demo_files :: "(string \<times> string) list" where
  "demo_files =
     [(''a.png'', ''PNGDATA''),
      (''pic.bmp'', ''BM''),
      (''notes'', ''hello''),
      (''big.gif'', replicate 3145729 (CHR ''x'')),
      (''exact.png'', replicate 716800 (CHR ''x''))]"

definition demo_types :: "(string \<times> string option) list" where
  "demo_types =
     [(''a.png'', Some ''image/png''),
      (''pic.bmp'', Some ''image/bmp''),
      (''big.gif'', Some ''image/gif''),
      (''exact.png'', Some ''image/png'')]"

definition demo_env :: env where
  "demo_env =
     \<lparr>getsize = (\<lambda>p. map_option length (map_of demo_files (encode_utf8 p))),
      open_rb = (\<lambda>p. map_of demo_files (encode_utf8 p)),
      guess_type = (\<lambda>p. Some (case map_of demo_types (encode_utf8 p) of
                                  None \<Rightarrow> (None, None)
                                | Some t \<Rightarrow> (t, None))),
      quote = (\<lambda>s. s)\<rparr>"

definition demo_bind :: "nat bound_api" where
  "demo_bind cfg args kw w = (Inr (PStr (path cfg)), Suc w)"

definition demo_api :: API where
  "demo_api =
     \<lparr>auth = PNone, host = PStr ''api.twitter.com'', search_host = PStr ''search.twitter.com'',
      api_root = PStr ''/1.1'', search_root = PStr [], cache = PNone,
      compression = PBool False, retry_count = PInt 0, retry_delay = PInt 0,
      retry_errors = PNone, timeout = PInt 60, wait_on_rate_limit = PBool False,
      wait_on_rate_limit_notify = PBool False, parser = PObject ModelParserInst,
      proxy = PDict []\<rparr>"

section \<open>Upload validation\<close>

lemma checked_source_too_big:
  "source_size e fn f = Some n \<Longrightarrow> int n > ms * 1024 \<Longrightarrow> checked_source e fn ms f = Inl too_big"
  by (auto simp: source_size_def checked_source_def split: pyval.splits option.splits)

lemma pack_image_too_big:
  "source_size e fn f = Some n \<Longrightarrow> int n > ms * 1024 \<Longrightarrow> pack_image e fn ms ff f = Inl too_big"
  by (simp add: pack_image_def checked_source_too_big)

lemma update_with_media_Inl:
  "pack_image e fn 3072 ''media[]'' (file_kwarg kw) = Inl err \<Longrightarrow>
   update_with_media e b self fn args kw w = (Inl err, w)"
  by (auto simp: update_with_media_def file_kwarg_def split: prod.splits)

lemma update_profile_image_Inl:
  "pack_image e fn 700 ''image'' f = Inl err \<Longrightarrow>
   update_profile_image e b self fn f w = (Inl err, w)"
  by (simp add: update_profile_image_def)

lemma update_profile_background_image_Inl:
  "pack_image e fn 800 ''image'' (file_kwarg kw) = Inl err \<Longrightarrow>
   update_profile_background_image e b self fn kw w = (Inl err, w)"
  by (auto simp: update_profile_background_image_def file_kwarg_def split: prod.splits)

lemma update_profile_banner_Inl:
  "pack_image e fn 700 ''banner'' (file_kwarg kw) = Inl err \<Longrightarrow>
   update_profile_banner e b self fn kw w = (Inl err, w)"
  by (auto simp: update_profile_banner_def file_kwarg_def split: prod.splits)

text \<open>
  C1. Every upload call rejects a source whose byte length exceeds the ceiling of the
  call (\<open>max_size * 1024\<close> bytes: 3072 KB for \<open>update_with_media\<close>, 700 KB for
  \<open>update_profile_image\<close> and \<open>update_profile_banner\<close>, 800 KB for
  \<open>update_profile_background_image\<close>): \<open>_pack_image\<close> raises the \<open>TweepError\<close>
  "File is too big", whether the file is named by path or given as a file object, and
  the call ends with that error whatever \<open>bind_api\<close> is, the network state unchanged.
\<close>

theorem oversized_upload_rejected:
  assumes "source_size e filename f = Some n"
  shows "(int n > max_size * 1024 \<longrightarrow>
            pack_image e filename max_size form_field f
              = Inl (TweepError ''File is too big, must be less than 700kb.'' None))
       \<and> (file_kwarg kwargs = f \<and> n > 3072 * 1024 \<longrightarrow>
            update_with_media e bind_api self filename args kwargs w
              = (Inl (TweepError ''File is too big, must be less than 700kb.'' None), w))
       \<and> (n > 700 * 1024 \<longrightarrow>
            update_profile_image e bind_api self filename f w
              = (Inl (TweepError ''File is too big, must be less than 700kb.'' None), w))
       \<and> (file_kwarg kwargs = f \<and> n > 800 * 1024 \<longrightarrow>
            update_profile_background_image e bind_api self filename kwargs w
              = (Inl (TweepError ''File is too big, must be less than 700kb.'' None), w))
       \<and> (file_kwarg kwargs = f \<and> n > 700 * 1024 \<longrightarrow>
            update_profile_banner e bind_api self filename kwargs w
              = (Inl (TweepError ''File is too big, must be less than 700kb.'' None), w))"
proof -
  have p: "int n > ms * 1024 \<Longrightarrow> pack_image e filename ms ff f = Inl too_big" for ms ff
    using assms by (rule pack_image_too_big)
  have 1: "int n > max_size * 1024 \<longrightarrow> pack_image e filename max_size form_field f = Inl too_big"
    using p by simp
  have 2: "file_kwarg kwargs = f \<and> n > 3072 * 1024 \<longrightarrow>
            update_with_media e bind_api self filename args kwargs w = (Inl too_big, w)"
    using p [of 3072 "''media[]''"] by (auto intro: update_with_media_Inl)
  have 3: "n > 700 * 1024 \<longrightarrow> update_profile_image e bind_api self filename f w = (Inl too_big, w)"
    using p [of 700 "''image''"] by (auto intro: update_profile_image_Inl)
  have 4: "file_kwarg kwargs = f \<and> n > 800 * 1024 \<longrightarrow>
            update_profile_background_image e bind_api self filename kwargs w = (Inl too_big, w)"
    using p [of 800 "''image''"] by (auto intro: update_profile_background_image_Inl)
  have 5: "file_kwarg kwargs = f \<and> n > 700 * 1024 \<longrightarrow>
            update_profile_banner e bind_api self filename kwargs w = (Inl too_big, w)"
    using p [of 700 "''banner''"] by (auto intro: update_profile_banner_Inl)
  from 1 2 3 4 5 show ?thesis unfolding too_big_def by blast
qed

text \<open>A file of one byte more than the ceiling, by path and as a file object.\<close>

theorem oversized_upload_rejected_witness:
  "pack_image demo_env (Str ''big.gif'') 3072 ''media[]'' PNone
     = Inl (TweepError ''File is too big, must be less than 700kb.'' None)
   \<and> update_with_media demo_env demo_bind demo_api (Str ''big.gif'') [] [] 0
     = (Inl (TweepError ''File is too big, must be less than 700kb.'' None), 0)
   \<and> update_profile_image demo_env demo_bind demo_api (Str ''a.png'')
        (PFile (replicate 716801 (CHR ''x''))) 0
     = (Inl (TweepError ''File is too big, must be less than 700kb.'' None), 0)
   \<and> update_profile_background_image demo_env demo_bind demo_api (Str ''a.png'')
        [(''file'', PFile (replicate 819201 (CHR ''x'')))] 0
     = (Inl (TweepError ''File is too big, must be less than 700kb.'' None), 0)
   \<and> update_profile_banner demo_env demo_bind demo_api (Str ''big.gif'') [(''tile'', PBool True)] 0
     = (Inl (TweepError ''File is too big, must be less than 700kb.'' None), 0)"
proof -
  have a: "source_size demo_env (Str ''big.gif'') PNone = Some 3145729"
    by (simp add: source_size_def demo_env_def demo_files_def)
  have b: "source_size demo_env (Str ''a.png'') (PFile (replicate 716801 (CHR ''x''))) = Some 716801"
    by (simp add: source_size_def)
  have c: "source_size demo_env (Str ''a.png'') (PFile (replicate 819201 (CHR ''x''))) = Some 819201"
    by (simp add: source_size_def)
  have k0: "file_kwarg [] = PNone" "file_kwarg [(''tile'', PBool True)] = PNone"
    by (simp_all add: file_kwarg_def pop_or_None_def)
  have k1: "file_kwarg [(''file'', PFile (replicate 819201 (CHR ''x'')))]
              = PFile (replicate 819201 (CHR ''x''))"
    by (simp add: file_kwarg_def pop_or_None_def)
  show ?thesis
    using oversized_upload_rejected [OF a, of 3072 "''media[]''" "[]" demo_bind demo_api "[]" 0]
      oversized_upload_rejected [OF b, of 700 "''image''" "[]" demo_bind demo_api "[]" 0]
      oversized_upload_rejected [OF c, of 800 "''image''"
        "[(''file'', PFile (replicate 819201 (CHR ''x'')))]" demo_bind demo_api "[]" 0]
      oversized_upload_rejected [OF a, of 700 "''banner''" "[(''tile'', PBool True)]"
        demo_bind demo_api "[]" 0]
      k0 k1
    by simp
qed


lemma checked_source_within:
  "source_size e fn f = Some n \<Longrightarrow> int n \<le> ms * 1024 \<Longrightarrow> readable e fn f \<Longrightarrow>
   \<exists>content. checked_source e fn ms f = Inr content
      \<and> (f = PNone \<and> open_rb e fn = Some content \<or> f = PFile content)"
  by (auto simp: source_size_def checked_source_def readable_def split: pyval.splits option.splits)

lemma checked_source_too_big_iff:
  "source_size e fn f = Some n \<Longrightarrow> checked_source e fn ms f = Inl too_big \<longleftrightarrow> int n > ms * 1024"
  by (auto simp: source_size_def checked_source_def too_big_def split: pyval.splits option.splits)

lemma pack_image_bad_type:
  "checked_source e fn ms f = Inr c \<Longrightarrow> guess_type e fn = Some (ft, enc) \<Longrightarrow>
   ft \<notin> Some ` set image_types \<Longrightarrow>
   pack_image e fn ms ff f = Inl (TweepError (''Invalid file type for image: '' @ percent_s ft) None)"
  by (auto simp: pack_image_def split: option.splits)

lemma pack_image_rejects_bad_type:
  assumes "guess_type e fn = Some (ft, enc)" and "ft \<notin> Some ` set image_types"
    and "source_size e fn f = Some n" and "readable e fn f"
  shows "\<exists>reason. pack_image e fn ms ff f = Inl (TweepError reason None)
           \<and> (int n \<le> ms * 1024 \<longrightarrow> reason = ''Invalid file type for image: '' @ percent_s ft)"
proof (cases "int n > ms * 1024")
  case True
  with assms(3) have "pack_image e fn ms ff f = Inl too_big" by (rule pack_image_too_big)
  with True show ?thesis by (simp add: too_big_def)
next
  case False
  with assms(3,4) obtain c where "checked_source e fn ms f = Inr c"
    using checked_source_within [of e fn f n ms] by auto
  with assms(1,2) show ?thesis by (simp add: pack_image_bad_type)
qed

text \<open>
  C2. When the type that \<open>mimetypes.guess_type\<close> determines for the file name is not
  one of image/gif, image/jpeg, image/png, and the source can be read, \<open>_pack_image\<close>
  raises a \<open>TweepError\<close> and every upload call ends with it whatever \<open>bind_api\<close> is,
  the network state unchanged. The type is determined after the size check: for a
  source within the ceiling of the call the error is "Invalid file type for image: "
  followed by the type.
\<close>

theorem invalid_type_rejected:
  assumes "guess_type e filename = Some (file_type, encoding)"
    and "file_type \<notin> Some ` set image_types"
    and "source_size e filename f = Some n"
    and "readable e filename f"
  shows "(\<exists>reason. pack_image e filename max_size form_field f = Inl (TweepError reason None)
            \<and> (int n \<le> max_size * 1024 \<longrightarrow>
                 reason = ''Invalid file type for image: '' @ percent_s file_type))
       \<and> (file_kwarg kwargs = f \<longrightarrow>
            (\<exists>reason. update_with_media e bind_api self filename args kwargs w
                        = (Inl (TweepError reason None), w)
               \<and> (n \<le> 3072 * 1024 \<longrightarrow>
                    reason = ''Invalid file type for image: '' @ percent_s file_type)))
       \<and> (\<exists>reason. update_profile_image e bind_api self filename f w
                        = (Inl (TweepError reason None), w)
               \<and> (n \<le> 700 * 1024 \<longrightarrow>
                    reason = ''Invalid file type for image: '' @ percent_s file_type))
       \<and> (file_kwarg kwargs = f \<longrightarrow>
            (\<exists>reason. update_profile_background_image e bind_api self filename kwargs w
                        = (Inl (TweepError reason None), w)
               \<and> (n \<le> 800 * 1024 \<longrightarrow>
                    reason = ''Invalid file type for image: '' @ percent_s file_type)))
       \<and> (file_kwarg kwargs = f \<longrightarrow>
            (\<exists>reason. update_profile_banner e bind_api self filename kwargs w
                        = (Inl (TweepError reason None), w)
               \<and> (n \<le> 700 * 1024 \<longrightarrow>
                    reason = ''Invalid file type for image: '' @ percent_s file_type)))"
proof -
  have p: "\<exists>reason. pack_image e filename ms ff f = Inl (TweepError reason None)
           \<and> (int n \<le> ms * 1024 \<longrightarrow> reason = ''Invalid file type for image: '' @ percent_s file_type)"
    for ms ff
    using assms by (rule pack_image_rejects_bad_type)
  have 1: "\<exists>reason. pack_image e filename max_size form_field f = Inl (TweepError reason None)
            \<and> (int n \<le> max_size * 1024 \<longrightarrow>
                 reason = ''Invalid file type for image: '' @ percent_s file_type)"
    by (rule p)
  have 2: "file_kwarg kwargs = f \<longrightarrow>
            (\<exists>reason. update_with_media e bind_api self filename args kwargs w
                        = (Inl (TweepError reason None), w)
               \<and> (n \<le> 3072 * 1024 \<longrightarrow>
                    reason = ''Invalid file type for image: '' @ percent_s file_type))"
    using p [of 3072 "''media[]''"] by (auto simp: update_with_media_Inl)
  have 3: "\<exists>reason. update_profile_image e bind_api self filename f w
                        = (Inl (TweepError reason None), w)
               \<and> (n \<le> 700 * 1024 \<longrightarrow>
                    reason = ''Invalid file type for image: '' @ percent_s file_type)"
    using p [of 700 "''image''"] by (auto simp: update_profile_image_Inl)
  have 4: "file_kwarg kwargs = f \<longrightarrow>
            (\<exists>reason. update_profile_background_image e bind_api self filename kwargs w
                        = (Inl (TweepError reason None), w)
               \<and> (n \<le> 800 * 1024 \<longrightarrow>
                    reason = ''Invalid file type for image: '' @ percent_s file_type))"
    using p [of 800 "''image''"] by (auto simp: update_profile_background_image_Inl)
  have 5: "file_kwarg kwargs = f \<longrightarrow>
            (\<exists>reason. update_profile_banner e bind_api self filename kwargs w
                        = (Inl (TweepError reason None), w)
               \<and> (n \<le> 700 * 1024 \<longrightarrow>
                    reason = ''Invalid file type for image: '' @ percent_s file_type))"
    using p [of 700 "''banner''"] by (auto simp: update_profile_banner_Inl)
  from 1 2 3 4 5 show ?thesis by blast
qed

text \<open>A file whose name yields the type image/bmp.\<close>

theorem invalid_type_rejected_witness:
  "pack_image demo_env (Str ''pic.bmp'') 700 ''image'' PNone
     = Inl (TweepError ''Invalid file type for image: image/bmp'' None)
   \<and> update_with_media demo_env demo_bind demo_api (Str ''pic.bmp'') [] [] 0
     = (Inl (TweepError ''Invalid file type for image: image/bmp'' None), 0)
   \<and> update_profile_image demo_env demo_bind demo_api (Str ''pic.bmp'') PNone 0
     = (Inl (TweepError ''Invalid file type for image: image/bmp'' None), 0)
   \<and> update_profile_background_image demo_env demo_bind demo_api (Str ''pic.bmp'') [] 0
     = (Inl (TweepError ''Invalid file type for image: image/bmp'' None), 0)
   \<and> update_profile_banner demo_env demo_bind demo_api (Str ''pic.bmp'') [] 0
     = (Inl (TweepError ''Invalid file type for image: image/bmp'' None), 0)"
proof -
  have g: "guess_type demo_env (Str ''pic.bmp'') = Some (Some ''image/bmp'', None)"
    by (simp add: demo_env_def demo_types_def)
  have b: "Some ''image/bmp'' \<notin> Some ` set image_types"
    by (simp add: image_types_def)
  have s: "source_size demo_env (Str ''pic.bmp'') PNone = Some 2"
    by (simp add: source_size_def demo_env_def demo_files_def)
  have r: "readable demo_env (Str ''pic.bmp'') PNone"
    by (simp add: readable_def demo_env_def demo_files_def)
  have k: "file_kwarg [] = PNone"
    by (simp add: file_kwarg_def pop_or_None_def)
  show ?thesis
    using invalid_type_rejected [OF g b s r, of 700 "''image''" "[]" demo_bind demo_api "[]" 0] k
    by simp
qed


text \<open>
  C9. The size check is strict: a source is rejected as too big exactly when its byte
  length is greater than \<open>max_size * 1024\<close>. A source of exactly that length passes
  the check, by path and as a file object, and is read when it can be opened.
\<close>

theorem size_check_strict:
  assumes "source_size e filename f = Some n"
  shows "(checked_source e filename max_size f
            = Inl (TweepError ''File is too big, must be less than 700kb.'' None)
          \<longleftrightarrow> int n > max_size * 1024)
       \<and> (pack_image e filename max_size form_field f
            = Inl (TweepError ''File is too big, must be less than 700kb.'' None)
          \<longleftrightarrow> int n > max_size * 1024)
       \<and> (int n = max_size * 1024 \<and> readable e filename f \<longrightarrow>
            (\<exists>content. checked_source e filename max_size f = Inr content
               \<and> (f = PNone \<and> open_rb e filename = Some content \<or> f = PFile content)))"
proof -
  have 1: "checked_source e filename max_size f = Inl too_big \<longleftrightarrow> int n > max_size * 1024"
    using assms by (rule checked_source_too_big_iff)
  have 2: "pack_image e filename max_size form_field f = Inl too_big \<longleftrightarrow> int n > max_size * 1024"
  proof
    assume "pack_image e filename max_size form_field f = Inl too_big"
    then have "checked_source e filename max_size f = Inl too_big"
      by (auto simp: pack_image_def too_big_def Let_def split: sum.splits option.splits if_splits)
    with 1 show "int n > max_size * 1024" by simp
  next
    assume "int n > max_size * 1024"
    with assms show "pack_image e filename max_size form_field f = Inl too_big"
      by (rule pack_image_too_big)
  qed
  have 3: "int n = max_size * 1024 \<and> readable e filename f \<longrightarrow>
            (\<exists>content. checked_source e filename max_size f = Inr content
               \<and> (f = PNone \<and> open_rb e filename = Some content \<or> f = PFile content))"
    using assms checked_source_within [of e filename f n max_size] by simp
  from 1 2 3 show ?thesis unfolding too_big_def by blast
qed

text \<open>A file of exactly 700 KB, by path and as a file object, against the 700 KB ceiling.\<close>

theorem size_check_strict_witness:
  "checked_source demo_env (Str ''exact.png'') 700 PNone
     \<noteq> Inl (TweepError ''File is too big, must be less than 700kb.'' None)
   \<and> pack_image demo_env (Str ''exact.png'') 700 ''image'' PNone
     \<noteq> Inl (TweepError ''File is too big, must be less than 700kb.'' None)
   \<and> checked_source demo_env (Str ''a.png'') 700 (PFile (replicate 716800 (CHR ''x'')))
     \<noteq> Inl (TweepError ''File is too big, must be less than 700kb.'' None)
   \<and> pack_image demo_env (Str ''a.png'') 700 ''image'' (PFile (replicate 716800 (CHR ''x'')))
     \<noteq> Inl (TweepError ''File is too big, must be less than 700kb.'' None)
   \<and> checked_source demo_env (Str ''a.png'') 700 (PFile (replicate 716801 (CHR ''x'')))
     = Inl (TweepError ''File is too big, must be less than 700kb.'' None)"
proof -
  have a: "source_size demo_env (Str ''exact.png'') PNone = Some 716800"
    by (simp add: source_size_def demo_env_def demo_files_def)
  have b: "source_size demo_env (Str ''a.png'') (PFile (replicate 716800 (CHR ''x''))) = Some 716800"
    by (simp add: source_size_def)
  have c: "source_size demo_env (Str ''a.png'') (PFile (replicate 716801 (CHR ''x''))) = Some 716801"
    by (simp add: source_size_def)
  show ?thesis
    using size_check_strict [OF a, of 700 "''image''"] size_check_strict [OF b, of 700 "''image''"]
      size_check_strict [OF c, of 700 "''image''"]
    by simp
qed

text \<open>
  C10. \<open>mimetypes.guess_type\<close> returns a pair, never \<open>None\<close>; then \<open>_pack_image\<close>
  never raises "Could not determine file type". For a name whose type cannot be
  guessed the first component of the pair is \<open>None\<close>, and a source that passed the
  size check is rejected with "Invalid file type for image: None".
\<close>

theorem could_not_determine_unreachable:
  "(guess_type e filename \<noteq> None \<longrightarrow>
      pack_image e filename max_size form_field f
        \<noteq> Inl (TweepError ''Could not determine file type'' resp))
   \<and> (guess_type e filename = Some (None, encoding) \<and> source_size e filename f = Some n
        \<and> int n \<le> max_size * 1024 \<and> readable e filename f \<longrightarrow>
      pack_image e filename max_size form_field f
        = Inl (TweepError ''Invalid file type for image: None'' None))"
proof -
  have 1: "pack_image e filename max_size form_field f
             \<noteq> Inl (TweepError ''Could not determine file type'' resp)"
    if "guess_type e filename \<noteq> None"
    using that
    by (auto simp: pack_image_def checked_source_def too_big_def Let_def
        split: sum.splits option.splits if_splits pyval.splits)
  have 2: "pack_image e filename max_size form_field f
             = Inl (TweepError ''Invalid file type for image: None'' None)"
    if "guess_type e filename = Some (None, encoding)" "source_size e filename f = Some n"
       "int n \<le> max_size * 1024" "readable e filename f"
  proof -
    from that obtain c where "checked_source e filename max_size f = Inr c"
      using checked_source_within [of e filename f n max_size] by auto
    with that(1) show ?thesis
      using pack_image_bad_type [of e filename max_size f c None encoding form_field] by auto
  qed
  from 1 2 show ?thesis by blast
qed

text \<open>A file without extension, whose type the table does not know.\<close>

theorem could_not_determine_unreachable_witness:
  "pack_image demo_env (Str ''notes'') 700 ''image'' PNone
     \<noteq> Inl (TweepError ''Could not determine file type'' None)
   \<and> pack_image demo_env (Str ''notes'') 700 ''image'' PNone
     = Inl (TweepError ''Invalid file type for image: None'' None)"
proof -
  have g: "guess_type demo_env (Str ''notes'') = Some (None, None)"
    by (simp add: demo_env_def demo_types_def)
  have s: "source_size demo_env (Str ''notes'') PNone = Some 5"
    by (simp add: source_size_def demo_env_def demo_files_def)
  have r: "readable demo_env (Str ''notes'') PNone"
    by (simp add: readable_def demo_env_def demo_files_def)
  show ?thesis
    using could_not_determine_unreachable
            [of demo_env "Str ''notes''" 700 "''image''" PNone None None 5] g s r
    by simp
qed


section \<open>The multipart body\<close>

lemma pack_image_Inr:
  assumes "pack_image e filename max_size form_field f = Inr (headers, body)"
  shows \<open>\<exists>t encoding content.
           guess_type e filename = Some (Some t, encoding) \<and> t \<in> set image_types
         \<and> checked_source e filename max_size f = Inr content
         \<and> body = join CRLF
             [''--'' @ BOUNDARY,
              ''Content-Disposition: form-data; name="'' @ form_field
                @ ''"; filename="'' @ quote e (encode_utf8 filename) @ ''"'',
              ''Content-Type: '' @ t, [], content, ''--'' @ BOUNDARY @ ''--'', []]
         \<and> headers = [(''Content-Type'', ''multipart/form-data; boundary=Tw3ePy''),
                       (''Content-Length'', str_nat (length body))]\<close>
  using assms
  by (auto simp: pack_image_def Let_def split: sum.splits option.splits if_splits)

lemma checked_source_Inr:
  "checked_source e fn ms f = Inr content \<Longrightarrow>
   f = PNone \<and> open_rb e fn = Some content \<or> f = PFile content"
  by (auto simp: checked_source_def split: pyval.splits option.splits if_splits)

lemma body_length: \<open>length (join CRLF
             [''--'' @ BOUNDARY,
              ''Content-Disposition: form-data; name="'' @ form_field
                @ ''"; filename="'' @ qf @ ''"'',
              ''Content-Type: '' @ t, [], content, ''--'' @ BOUNDARY @ ''--'', []]) = length form_field + length qf + length t + length content + 96\<close>
  by (simp add: CRLF_def BOUNDARY_def)


lemma dec_value_str_nat: "dec_value (str_nat n) = n"
proof (induction n rule: str_nat.induct)
  case (1 n)
  show ?case
  proof (cases "n < 10")
    case True
    then show ?thesis by (subst str_nat.simps) (simp add: dec_value_def)
  next
    case False
    with 1 have "dec_value (str_nat (n div 10)) = n div 10" by simp
    with False show ?thesis
      by (subst str_nat.simps) (simp add: dec_value_def)
  qed
qed

lemma pack_image_accepts:
  assumes "checked_source e filename max_size f = Inr content"
    and "guess_type e filename = Some (Some t, encoding)"
    and "t \<in> set image_types"
  shows \<open>pack_image e filename max_size form_field f =
           Inr ([(''Content-Type'', ''multipart/form-data; boundary=Tw3ePy''),
                 (''Content-Length'', str_nat (length (join CRLF
                    [''--'' @ BOUNDARY,
                     ''Content-Disposition: form-data; name="'' @ form_field
                       @ ''"; filename="'' @ quote e (encode_utf8 filename) @ ''"'',
                     ''Content-Type: '' @ t, [], content, ''--'' @ BOUNDARY @ ''--'', []])))],
                join CRLF
                    [''--'' @ BOUNDARY,
                     ''Content-Disposition: form-data; name="'' @ form_field
                       @ ''"; filename="'' @ quote e (encode_utf8 filename) @ ''"'',
                     ''Content-Type: '' @ t, [], content, ''--'' @ BOUNDARY @ ''--'', []])\<close>
  using assms by (simp add: pack_image_def Let_def)

lemma pack_image_shape:
  assumes "pack_image e filename max_size form_field f = Inr (headers, body)"
  shows \<open>\<exists>t encoding content.
           guess_type e filename = Some (Some t, encoding)
         \<and> t \<in> set [''image/gif'', ''image/jpeg'', ''image/png'']
         \<and> (f = PNone \<and> open_rb e filename = Some content \<or> f = PFile content)
         \<and> body = join [CHR 0x0D, CHR 0x0A]
             [''--Tw3ePy'',
              ''Content-Disposition: form-data; name="'' @ form_field
                @ ''"; filename="'' @ quote e (encode_utf8 filename) @ ''"'',
              ''Content-Type: '' @ t,
              [],
              content,
              ''--Tw3ePy--'',
              []]
         \<and> length body = length form_field + length (quote e (encode_utf8 filename))
                           + length t + length content + 96
         \<and> headers = [(''Content-Type'', ''multipart/form-data; boundary=Tw3ePy''),
                       (''Content-Length'', str_nat (length body))]
         \<and> map_of headers ''Content-Type'' = Some ''multipart/form-data; boundary=Tw3ePy''
         \<and> map_of headers ''Content-Length'' = Some (str_nat (length body))
         \<and> dec_value (str_nat (length body)) = length body\<close>
proof -
  from assms obtain t encoding content where
    g: "guess_type e filename = Some (Some t, encoding)" and t: "t \<in> set image_types"
    and c: "checked_source e filename max_size f = Inr content"
    and b: \<open>body = join CRLF
             [''--'' @ BOUNDARY,
              ''Content-Disposition: form-data; name="'' @ form_field
                @ ''"; filename="'' @ quote e (encode_utf8 filename) @ ''"'',
              ''Content-Type: '' @ t, [], content, ''--'' @ BOUNDARY @ ''--'', []]\<close>
    and h: "headers = [(''Content-Type'', ''multipart/form-data; boundary=Tw3ePy''),
                       (''Content-Length'', str_nat (length body))]"
    using pack_image_Inr [of e filename max_size form_field f headers body] by blast
  from c have src: "f = PNone \<and> open_rb e filename = Some content \<or> f = PFile content"
    by (rule checked_source_Inr)
  from b have len: "length body = length form_field + length (quote e (encode_utf8 filename))
                           + length t + length content + 96"
    by (simp only: body_length)
  from h have m1: "map_of headers ''Content-Type'' = Some ''multipart/form-data; boundary=Tw3ePy''"
    and m2: "map_of headers ''Content-Length'' = Some (str_nat (length body))"
    by simp_all
  from t have t': "t \<in> set [''image/gif'', ''image/jpeg'', ''image/png'']"
    by (simp add: image_types_def)
  from b have b': \<open>body = join [CHR 0x0D, CHR 0x0A]
             [''--Tw3ePy'',
              ''Content-Disposition: form-data; name="'' @ form_field
                @ ''"; filename="'' @ quote e (encode_utf8 filename) @ ''"'',
              ''Content-Type: '' @ t, [], content, ''--Tw3ePy--'', []]\<close>
    by (simp add: CRLF_def BOUNDARY_def)
  from g t' src b' len h m1 m2 dec_value_str_nat [of "length body"] show ?thesis
    by blast
qed

text \<open>
  C4. \<open>_pack_image\<close> accepts a source that can be read, is within the size ceiling
  and has a file name of one of the three image types: it returns headers and a body.
  Whenever it returns them, the body is the CRLF-join of the opening boundary line
  \<open>--Tw3ePy\<close>, the Content-Disposition line with the form field name and the
  URL-quoted file name, the Content-Type line with the determined type (one of the
  three image types), an empty line, the bytes of the file (read from the path, or
  from the file object), the closing boundary \<open>--Tw3ePy--\<close> and an empty last
  segment. The headers map Content-Type to \<open>multipart/form-data; boundary=Tw3ePy\<close>
  and Content-Length to the decimal string of the length of the body, which is 96
  more than the lengths of the field name, the quoted file name, the type and the
  bytes together.
\<close>

theorem multipart_body_shape:
  \<open>(source_size e filename f = Some n \<and> int n \<le> max_size * 1024 \<and> readable e filename f
      \<and> guess_type e filename = Some (Some t, encoding)
      \<and> t \<in> set [''image/gif'', ''image/jpeg'', ''image/png''] \<longrightarrow>
      (\<exists>content packed.
           (f = PNone \<and> open_rb e filename = Some content \<or> f = PFile content)
         \<and> packed = join [CHR 0x0D, CHR 0x0A]
             [''--Tw3ePy'',
              ''Content-Disposition: form-data; name="'' @ form_field
                @ ''"; filename="'' @ quote e (encode_utf8 filename) @ ''"'',
              ''Content-Type: '' @ t,
              [],
              content,
              ''--Tw3ePy--'',
              []]
         \<and> pack_image e filename max_size form_field f
             = Inr ([(''Content-Type'', ''multipart/form-data; boundary=Tw3ePy''),
                     (''Content-Length'', str_nat (length packed))],
                    packed)))
 \<and> (pack_image e filename max_size form_field f = Inr (headers, body) \<longrightarrow>
      (\<exists>t encoding content.
           guess_type e filename = Some (Some t, encoding)
         \<and> t \<in> set [''image/gif'', ''image/jpeg'', ''image/png'']
         \<and> (f = PNone \<and> open_rb e filename = Some content \<or> f = PFile content)
         \<and> body = join [CHR 0x0D, CHR 0x0A]
             [''--Tw3ePy'',
              ''Content-Disposition: form-data; name="'' @ form_field
                @ ''"; filename="'' @ quote e (encode_utf8 filename) @ ''"'',
              ''Content-Type: '' @ t,
              [],
              content,
              ''--Tw3ePy--'',
              []]
         \<and> length body = length form_field + length (quote e (encode_utf8 filename))
                           + length t + length content + 96
         \<and> headers = [(''Content-Type'', ''multipart/form-data; boundary=Tw3ePy''),
                       (''Content-Length'', str_nat (length body))]
         \<and> map_of headers ''Content-Type'' = Some ''multipart/form-data; boundary=Tw3ePy''
         \<and> map_of headers ''Content-Length'' = Some (str_nat (length body))
         \<and> dec_value (str_nat (length body)) = length body))\<close>
proof (intro conjI impI)
  assume a: \<open>source_size e filename f = Some n \<and> int n \<le> max_size * 1024
      \<and> readable e filename f \<and> guess_type e filename = Some (Some t, encoding)
      \<and> t \<in> set [''image/gif'', ''image/jpeg'', ''image/png'']\<close>
  then obtain content where
    c: "checked_source e filename max_size f = Inr content"
    and src: "f = PNone \<and> open_rb e filename = Some content \<or> f = PFile content"
    using checked_source_within [of e filename f n max_size] by blast
  from a have t: "t \<in> set image_types"
    by (simp add: image_types_def)
  from a have g: "guess_type e filename = Some (Some t, encoding)"
    by simp
  from pack_image_accepts [OF c g t, of form_field]
  have \<open>pack_image e filename max_size form_field f
          = Inr ([(''Content-Type'', ''multipart/form-data; boundary=Tw3ePy''),
                  (''Content-Length'', str_nat (length (join [CHR 0x0D, CHR 0x0A]
                     [''--Tw3ePy'',
                      ''Content-Disposition: form-data; name="'' @ form_field
                        @ ''"; filename="'' @ quote e (encode_utf8 filename) @ ''"'',
                      ''Content-Type: '' @ t, [], content, ''--Tw3ePy--'', []])))],
                 join [CHR 0x0D, CHR 0x0A]
                     [''--Tw3ePy'',
                      ''Content-Disposition: form-data; name="'' @ form_field
                        @ ''"; filename="'' @ quote e (encode_utf8 filename) @ ''"'',
                      ''Content-Type: '' @ t, [], content, ''--Tw3ePy--'', []])\<close>
    by (simp add: CRLF_def BOUNDARY_def)
  with src show \<open>\<exists>content packed.
           (f = PNone \<and> open_rb e filename = Some content \<or> f = PFile content)
         \<and> packed = join [CHR 0x0D, CHR 0x0A]
             [''--Tw3ePy'',
              ''Content-Disposition: form-data; name="'' @ form_field
                @ ''"; filename="'' @ quote e (encode_utf8 filename) @ ''"'',
              ''Content-Type: '' @ t,
              [],
              content,
              ''--Tw3ePy--'',
              []]
         \<and> pack_image e filename max_size form_field f
             = Inr ([(''Content-Type'', ''multipart/form-data; boundary=Tw3ePy''),
                     (''Content-Length'', str_nat (length packed))],
                    packed)\<close>
    by blast
next
  assume "pack_image e filename max_size form_field f = Inr (headers, body)"
  then show \<open>\<exists>t encoding content.
           guess_type e filename = Some (Some t, encoding)
         \<and> t \<in> set [''image/gif'', ''image/jpeg'', ''image/png'']
         \<and> (f = PNone \<and> open_rb e filename = Some content \<or> f = PFile content)
         \<and> body = join [CHR 0x0D, CHR 0x0A]
             [''--Tw3ePy'',
              ''Content-Disposition: form-data; name="'' @ form_field
                @ ''"; filename="'' @ quote e (encode_utf8 filename) @ ''"'',
              ''Content-Type: '' @ t,
              [],
              content,
              ''--Tw3ePy--'',
              []]
         \<and> length body = length form_field + length (quote e (encode_utf8 filename))
                           + length t + length content + 96
         \<and> headers = [(''Content-Type'', ''multipart/form-data; boundary=Tw3ePy''),
                       (''Content-Length'', str_nat (length body))]
         \<and> map_of headers ''Content-Type'' = Some ''multipart/form-data; boundary=Tw3ePy''
         \<and> map_of headers ''Content-Length'' = Some (str_nat (length body))
         \<and> dec_value (str_nat (length body)) = length body\<close>
    by (rule pack_image_shape)
qed

text \<open>
  The seven bytes of a.png, packed for the field \<open>image\<close>, by path and as a file
  object: the file is accepted, and what is returned has the shape.
\<close>

theorem multipart_body_shape_witness:
  \<open>pack_image demo_env (Str ''a.png'') 700 ''image'' PNone
     = Inr ([(''Content-Type'', ''multipart/form-data; boundary=Tw3ePy''),
             (''Content-Length'', ''122'')],
            join [CHR 0x0D, CHR 0x0A]
              [''--Tw3ePy'',
               ''Content-Disposition: form-data; name="image"; filename="a.png"'',
               ''Content-Type: image/png'',
               [],
               ''PNGDATA'',
               ''--Tw3ePy--'',
               []])
 \<and> pack_image demo_env (Str ''a.png'') 700 ''image'' (PFile ''PNGDATA'')
     = pack_image demo_env (Str ''a.png'') 700 ''image'' PNone\<close>
proof -
  have q: "quote demo_env (encode_utf8 (Str ''a.png'')) = ''a.png''"
    by (simp add: demo_env_def)
  have n: "str_nat 122 = ''122''"
    by code_simp
  have o: "open_rb demo_env (Str ''a.png'') = Some ''PNGDATA''"
    by (simp add: demo_env_def demo_files_def)
  have g: "guess_type demo_env (Str ''a.png'') = Some (Some ''image/png'', None)"
    by (simp add: demo_env_def demo_types_def)
  have t: "''image/png'' \<in> set [''image/gif'', ''image/jpeg'', ''image/png'']"
    by simp
  have packed: \<open>pack_image demo_env (Str ''a.png'') 700 ''image'' f
     = Inr ([(''Content-Type'', ''multipart/form-data; boundary=Tw3ePy''),
             (''Content-Length'', ''122'')],
            join [CHR 0x0D, CHR 0x0A]
              [''--Tw3ePy'',
               ''Content-Disposition: form-data; name="image"; filename="a.png"'',
               ''Content-Type: image/png'', [], ''PNGDATA'', ''--Tw3ePy--'', []])\<close>
    if s: "source_size demo_env (Str ''a.png'') f = Some 7"
      and r: "readable demo_env (Str ''a.png'') f"
      and c: "\<And>content. f = PNone \<and> open_rb demo_env (Str ''a.png'') = Some content
                 \<or> f = PFile content \<Longrightarrow> content = ''PNGDATA''"
    for f
  proof -
    have "int 7 \<le> 700 * 1024" by simp
    with s r g t multipart_body_shape
      [where e = demo_env and filename = "Str ''a.png''" and f = f and n = 7
         and max_size = 700 and t = "''image/png''" and encoding = None
         and form_field = "''image''"]
    obtain content packed where
      src: "f = PNone \<and> open_rb demo_env (Str ''a.png'') = Some content \<or> f = PFile content"
      and pk: \<open>packed = join [CHR 0x0D, CHR 0x0A]
             [''--Tw3ePy'',
              ''Content-Disposition: form-data; name="'' @ ''image''
                @ ''"; filename="'' @ quote demo_env (encode_utf8 (Str ''a.png'')) @ ''"'',
              ''Content-Type: '' @ ''image/png'', [], content, ''--Tw3ePy--'', []]\<close>
      and res: "pack_image demo_env (Str ''a.png'') 700 ''image'' f
             = Inr ([(''Content-Type'', ''multipart/form-data; boundary=Tw3ePy''),
                     (''Content-Length'', str_nat (length packed))], packed)"
      by blast
    from src have c': "content = ''PNGDATA''" by (rule c)
    from pk c' q have pk': \<open>packed = join [CHR 0x0D, CHR 0x0A]
              [''--Tw3ePy'',
               ''Content-Disposition: form-data; name="image"; filename="a.png"'',
               ''Content-Type: image/png'', [], ''PNGDATA'', ''--Tw3ePy--'', []]\<close>
      by simp
    then have len: "length packed = 122" by simp
    from res have "pack_image demo_env (Str ''a.png'') 700 ''image'' f
             = Inr ([(''Content-Type'', ''multipart/form-data; boundary=Tw3ePy''),
                     (''Content-Length'', ''122'')], packed)"
      by (simp only: len n)
    then show ?thesis by (simp only: pk')
  qed
  have 1: \<open>pack_image demo_env (Str ''a.png'') 700 ''image'' PNone
     = Inr ([(''Content-Type'', ''multipart/form-data; boundary=Tw3ePy''),
             (''Content-Length'', ''122'')],
            join [CHR 0x0D, CHR 0x0A]
              [''--Tw3ePy'',
               ''Content-Disposition: form-data; name="image"; filename="a.png"'',
               ''Content-Type: image/png'', [], ''PNGDATA'', ''--Tw3ePy--'', []])\<close>
    using o by (intro packed) (simp_all add: source_size_def readable_def demo_env_def demo_files_def)
  have 2: \<open>pack_image demo_env (Str ''a.png'') 700 ''image'' (PFile ''PNGDATA'')
     = Inr ([(''Content-Type'', ''multipart/form-data; boundary=Tw3ePy''),
             (''Content-Length'', ''122'')],
            join [CHR 0x0D, CHR 0x0A]
              [''--Tw3ePy'',
               ''Content-Disposition: form-data; name="image"; filename="a.png"'',
               ''Content-Type: image/png'', [], ''PNGDATA'', ''--Tw3ePy--'', []])\<close>
    by (intro packed) (simp_all add: source_size_def readable_def)
  from 1 2 show ?thesis by (simp only:)
qed


section \<open>Credential verification\<close>

text \<open>
  What \<open>verify_credentials\<close> does: it returns \<open>False\<close> when the bound call raises a
  \<open>TweepError\<close> whose response is a true value with status 401; it raises every
  other error of the bound call unchanged, and returns the value of a bound call that
  succeeds. The network state is the one the bound call leaves.
\<close>

lemma verify_credentials_cases:
  "(bind_api (verify_credentials_endpoint self) [] kargs w = (Inl err, w') \<and> true_401 err \<longrightarrow>
    verify_credentials bind_api self kargs w = (Inr (PBool False), w'))
 \<and> (bind_api (verify_credentials_endpoint self) [] kargs w = (Inl err, w') \<and> \<not> true_401 err \<longrightarrow>
    verify_credentials bind_api self kargs w = (Inl err, w'))
 \<and> (bind_api (verify_credentials_endpoint self) [] kargs w = (Inr v, w') \<longrightarrow>
    verify_credentials bind_api self kargs w = (Inr v, w'))"
proof -
  have 1: "verify_credentials bind_api self kargs w
             = (if true_401 err then (Inr (PBool False), w') else (Inl err, w'))"
    if "bind_api (verify_credentials_endpoint self) [] kargs w = (Inl err, w')"
  proof (cases err)
    case (TweepError reason resp)
    with that show ?thesis
      by (cases resp) (simp_all add: verify_credentials_def)
  qed (use that in \<open>simp_all add: verify_credentials_def\<close>)
  have 3: "verify_credentials bind_api self kargs w = (Inr v, w')"
    if "bind_api (verify_credentials_endpoint self) [] kargs w = (Inr v, w')"
    using that by (simp add: verify_credentials_def)
  from 1 3 show ?thesis by simp
qed

text \<open>
  No other method of the model turns an error of the bound call into a value: the bulk
  calls return what the bound call returns, and an upload call whose file has been
  packed raises what the bound call raises.
\<close>

lemma other_calls_raise:
  "statuses_lookup bind_api self ids include_entities trim_user map_arg w
     = bind_api (priv_statuses_lookup self)
         [list_to_csv ids, include_entities, trim_user, map_arg] [] w
 \<and> lookup_users bind_api self user_ids screen_names w
     = bind_api (priv_lookup_users self) [list_to_csv user_ids, list_to_csv screen_names] [] w
 \<and> lookup_friendships bind_api self user_ids screen_names w
     = bind_api (priv_lookup_friendships self)
         [list_to_csv user_ids, list_to_csv screen_names] [] w
 \<and> add_list_members bind_api self screen_name user_id slug list_id owner_id owner_screen_name w
     = bind_api (priv_add_list_members self)
         [list_to_csv screen_name, list_to_csv user_id, slug, list_id, owner_id,
          owner_screen_name] [] w
 \<and> remove_list_members bind_api self screen_name user_id slug list_id owner_id
       owner_screen_name w
     = bind_api (priv_remove_list_members self)
         [list_to_csv screen_name, list_to_csv user_id, slug, list_id, owner_id,
          owner_screen_name] [] w
 \<and> (pack_image e filename 3072 ''media[]'' (file_kwarg kwargs) = Inr (headers, post_data)
      \<and> bind_api (update_with_media_endpoint self) args
           (AList.update ''post_data'' (PStr post_data)
              (AList.update ''headers'' (headers_val headers) (snd (pop_or_None ''file'' kwargs))))
           w = (Inl err, w') \<longrightarrow>
      update_with_media e bind_api self filename args kwargs w = (Inl err, w'))
 \<and> (pack_image e filename 700 ''image'' f = Inr (headers, post_data)
      \<and> bind_api (update_profile_image_endpoint self) [PSelf]
           [(''post_data'', PStr post_data), (''headers'', headers_val headers)] w
         = (Inl err, w') \<longrightarrow>
      update_profile_image e bind_api self filename f w = (Inl err, w'))
 \<and> (pack_image e filename 800 ''image'' (file_kwarg kwargs) = Inr (headers, post_data)
      \<and> bind_api (update_profile_background_image_endpoint self) [PSelf]
           [(''post_data'', PStr post_data), (''headers'', headers_val headers)] w
         = (Inl err, w') \<longrightarrow>
      update_profile_background_image e bind_api self filename kwargs w = (Inl err, w'))
 \<and> (pack_image e filename 700 ''banner'' (file_kwarg kwargs) = Inr (headers, post_data)
      \<and> bind_api (update_profile_banner_endpoint self) [PSelf]
           [(''post_data'', PStr post_data), (''headers'', headers_val headers)] w
         = (Inl err, w') \<longrightarrow>
      update_profile_banner e bind_api self filename kwargs w = (Inl err, w'))"
  by (auto simp: statuses_lookup_def lookup_users_def lookup_friendships_def
      add_list_members_def remove_list_members_def update_with_media_def
      update_profile_image_def update_profile_background_image_def update_profile_banner_def
      file_kwarg_def split: prod.splits)

text \<open>
  C3. \<open>verify_credentials\<close> tests \<open>e.response and e.response.status == 401\<close>: the
  truth value of the response object, not whether there is one. When the bound call
  raises a \<open>TweepError\<close> whose response has status 401 and is a false value, the method
  raises the error again instead of returning \<open>False\<close>; with a response that is a true
  value it returns \<open>False\<close>.
\<close>

theorem false_response_reraised:
  "verify_credentials
     (\<lambda>cfg args kw w.
        (Inl (TweepError ''Not authorized'' (Some \<lparr>status = 401, truth_value = False\<rparr>)), Suc w))
     demo_api [] (0::nat)
     = (Inl (TweepError ''Not authorized'' (Some \<lparr>status = 401, truth_value = False\<rparr>)), 1)
 \<and> verify_credentials
     (\<lambda>cfg args kw w.
        (Inl (TweepError ''Not authorized'' (Some \<lparr>status = 401, truth_value = True\<rparr>)), Suc w))
     demo_api [] (0::nat)
     = (Inr (PBool False), 1)"
  by (simp add: verify_credentials_def)

section \<open>Bulk calls\<close>






section \<open>The closed parameter set\<close>

text \<open>
  C6. The set of parameter names that an endpoint declares is closed: a call whose
  arguments have a name outside \<open>allowed_param\<close> fails with a validation error, the
  rest of the engine is not run and the network state is unchanged. (A call whose
  names are all allowed, with the authentication it requires, does run the rest.)
\<close>

theorem unknown_argument_rejected:
  "(name \<in> fst ` set args \<and> name \<notin> set (allowed d) \<longrightarrow>
      execute d args perform w = (Inl ValidationError, w))
 \<and> allowed (home_timeline self) = [''since_id'', ''max_id'', ''count'']
 \<and> (fst ` set args \<subseteq> set (allowed d) \<and> \<not> (require_auth d = Some True \<and> auth (api d) = PNone) \<longrightarrow>
      execute d args perform w = (case perform d args w of (r, w') \<Rightarrow> (Inr r, w')))"
proof -
  have 1: "execute d args perform w = (Inl ValidationError, w)"
    if "name \<in> fst ` set args" "name \<notin> set (allowed d)"
  proof -
    from that have "list_ex (\<lambda>name. name \<notin> set (allowed d)) (map fst args)"
      by (auto simp: list_ex_iff)
    then show ?thesis by (simp add: execute_def)
  qed
  have 2: "allowed (home_timeline self) = [''since_id'', ''max_id'', ''count'']"
    by (simp add: allowed_def home_timeline_def)
  have 3: "execute d args perform w = (case perform d args w of (r, w') \<Rightarrow> (Inr r, w'))"
    if "fst ` set args \<subseteq> set (allowed d)"
       "\<not> (require_auth d = Some True \<and> auth (api d) = PNone)"
  proof -
    from that(1) have "\<not> list_ex (\<lambda>name. name \<notin> set (allowed d)) (map fst args)"
      by (auto simp: list_ex_iff)
    with that(2) show ?thesis by (auto simp: execute_def)
  qed
  from 1 2 3 show ?thesis by blast
qed

text \<open>\<open>home_timeline\<close> called with \<open>page\<close>, which it does not declare, and with \<open>count\<close>.\<close>

theorem unknown_argument_rejected_witness:
  "execute (home_timeline demo_api) [(''count'', PInt 5), (''page'', PInt 2)]
     (\<lambda>d a w. (PNone, Suc w)) (0::nat)
     = (Inl ValidationError, 0)
 \<and> execute (home_timeline (demo_api\<lparr>auth := PObject (OtherInst ''OAuthHandler'')\<rparr>))
     [(''count'', PInt 5)] (\<lambda>d a w. (PNone, Suc w)) (0::nat)
     = (Inr PNone, 1)"
  using unknown_argument_rejected
      [where name = "''page''" and args = "[(''count'', PInt 5), (''page'', PInt 2)]"
         and d = "home_timeline demo_api" and self = demo_api
         and perform = "\<lambda>d a w. (PNone, Suc w)" and w = "0::nat"]
    unknown_argument_rejected
      [where args = "[(''count'', PInt 5)]"
         and d = "home_timeline (demo_api\<lparr>auth := PObject (OtherInst ''OAuthHandler'')\<rparr>)"
         and self = "demo_api\<lparr>auth := PObject (OtherInst ''OAuthHandler'')\<rparr>"
         and perform = "\<lambda>d a w. (PNone, Suc w)" and w = "0::nat"]
  by (simp add: home_timeline_def)


section \<open>The constructor\<close>

text \<open>
  C7, as stated, fails: \<open>API()\<close> does not store the default \<open>''\<close> of \<open>proxy\<close>; the
  attribute \<open>proxy\<close> is a dictionary.
\<close>

theorem default_proxy_not_stored:
  "map_sum id proxy (API_init no_args) = Inr (PDict [])
 \<and> map_sum id proxy (API_init no_args) \<noteq> Inr (PStr [])"
  by (simp add: API_init_def no_args_def arg_or_def)

text \<open>
  C7, amended. Every configuration parameter of the constructor is optional: leaving
  it out is the same as passing its documented default (host \<open>api.twitter.com\<close>,
  api_root \<open>/1.1\<close>, retry_count 0, retry_delay 0, retry_errors \<open>None\<close>, timeout 60,
  compression, wait_on_rate_limit and wait_on_rate_limit_notify \<open>False\<close>, proxy
  \<open>''\<close>, cache and auth_handler \<open>None\<close>). \<open>API()\<close> succeeds and stores these values
  in the attributes of the same names (\<open>auth_handler\<close> in \<open>auth\<close>), except for
  \<open>proxy\<close>: the attribute is a dictionary, empty when the argument is \<open>''\<close> or
  another false value, and \<open>{'https': proxy}\<close> otherwise.
\<close>

theorem constructor_defaults:
  "API_init no_args =
     Inr \<lparr>auth = PNone, host = PStr ''api.twitter.com'', search_host = PStr ''search.twitter.com'',
          api_root = PStr ''/1.1'', search_root = PStr [], cache = PNone,
          compression = PBool False, retry_count = PInt 0, retry_delay = PInt 0,
          retry_errors = PNone, timeout = PInt 60, wait_on_rate_limit = PBool False,
          wait_on_rate_limit_notify = PBool False, parser = PObject ModelParserInst,
          proxy = PDict []\<rparr>
 \<and> API_init (a\<lparr>kw_auth_handler := None\<rparr>) = API_init (a\<lparr>kw_auth_handler := Some PNone\<rparr>)
 \<and> API_init (a\<lparr>kw_host := None\<rparr>) = API_init (a\<lparr>kw_host := Some (PStr ''api.twitter.com'')\<rparr>)
 \<and> API_init (a\<lparr>kw_cache := None\<rparr>) = API_init (a\<lparr>kw_cache := Some PNone\<rparr>)
 \<and> API_init (a\<lparr>kw_api_root := None\<rparr>) = API_init (a\<lparr>kw_api_root := Some (PStr ''/1.1'')\<rparr>)
 \<and> API_init (a\<lparr>kw_retry_count := None\<rparr>) = API_init (a\<lparr>kw_retry_count := Some (PInt 0)\<rparr>)
 \<and> API_init (a\<lparr>kw_retry_delay := None\<rparr>) = API_init (a\<lparr>kw_retry_delay := Some (PInt 0)\<rparr>)
 \<and> API_init (a\<lparr>kw_retry_errors := None\<rparr>) = API_init (a\<lparr>kw_retry_errors := Some PNone\<rparr>)
 \<and> API_init (a\<lparr>kw_timeout := None\<rparr>) = API_init (a\<lparr>kw_timeout := Some (PInt 60)\<rparr>)
 \<and> API_init (a\<lparr>kw_compression := None\<rparr>) = API_init (a\<lparr>kw_compression := Some (PBool False)\<rparr>)
 \<and> API_init (a\<lparr>kw_wait_on_rate_limit := None\<rparr>)
     = API_init (a\<lparr>kw_wait_on_rate_limit := Some (PBool False)\<rparr>)
 \<and> API_init (a\<lparr>kw_wait_on_rate_limit_notify := None\<rparr>)
     = API_init (a\<lparr>kw_wait_on_rate_limit_notify := Some (PBool False)\<rparr>)
 \<and> API_init (a\<lparr>kw_proxy := None\<rparr>) = API_init (a\<lparr>kw_proxy := Some (PStr [])\<rparr>)
 \<and> (API_init a = Inr self \<longrightarrow>
      proxy self = PDict (if truthy (arg_or (kw_proxy a) (PStr []))
                          then [(''https'', arg_or (kw_proxy a) (PStr []))] else []))"
proof -
  have A: "API_init no_args =
     Inr \<lparr>auth = PNone, host = PStr ''api.twitter.com'', search_host = PStr ''search.twitter.com'',
          api_root = PStr ''/1.1'', search_root = PStr [], cache = PNone,
          compression = PBool False, retry_count = PInt 0, retry_delay = PInt 0,
          retry_errors = PNone, timeout = PInt 60, wait_on_rate_limit = PBool False,
          wait_on_rate_limit_notify = PBool False, parser = PObject ModelParserInst,
          proxy = PDict []\<rparr>"
    by (simp add: API_init_def no_args_def arg_or_def)
  have B: "API_init (a\<lparr>kw_auth_handler := None\<rparr>) = API_init (a\<lparr>kw_auth_handler := Some PNone\<rparr>)"
    "API_init (a\<lparr>kw_host := None\<rparr>) = API_init (a\<lparr>kw_host := Some (PStr ''api.twitter.com'')\<rparr>)"
    "API_init (a\<lparr>kw_cache := None\<rparr>) = API_init (a\<lparr>kw_cache := Some PNone\<rparr>)"
    "API_init (a\<lparr>kw_api_root := None\<rparr>) = API_init (a\<lparr>kw_api_root := Some (PStr ''/1.1'')\<rparr>)"
    "API_init (a\<lparr>kw_retry_count := None\<rparr>) = API_init (a\<lparr>kw_retry_count := Some (PInt 0)\<rparr>)"
    "API_init (a\<lparr>kw_retry_delay := None\<rparr>) = API_init (a\<lparr>kw_retry_delay := Some (PInt 0)\<rparr>)"
    "API_init (a\<lparr>kw_retry_errors := None\<rparr>) = API_init (a\<lparr>kw_retry_errors := Some PNone\<rparr>)"
    "API_init (a\<lparr>kw_timeout := None\<rparr>) = API_init (a\<lparr>kw_timeout := Some (PInt 60)\<rparr>)"
    "API_init (a\<lparr>kw_compression := None\<rparr>) = API_init (a\<lparr>kw_compression := Some (PBool False)\<rparr>)"
    "API_init (a\<lparr>kw_wait_on_rate_limit := None\<rparr>)
       = API_init (a\<lparr>kw_wait_on_rate_limit := Some (PBool False)\<rparr>)"
    "API_init (a\<lparr>kw_wait_on_rate_limit_notify := None\<rparr>)
       = API_init (a\<lparr>kw_wait_on_rate_limit_notify := Some (PBool False)\<rparr>)"
    "API_init (a\<lparr>kw_proxy := None\<rparr>) = API_init (a\<lparr>kw_proxy := Some (PStr [])\<rparr>)"
    by (simp_all add: API_init_def arg_or_def)
  have C: "proxy self = PDict (if truthy (arg_or (kw_proxy a) (PStr []))
                          then [(''https'', arg_or (kw_proxy a) (PStr []))] else [])"
    if "API_init a = Inr self"
    using that by (auto simp: API_init_def Let_def split: if_splits)
  from A B C show ?thesis by blast
qed

text \<open>\<open>API()\<close>, and \<open>API(proxy='')\<close>.\<close>

theorem constructor_defaults_witness:
  "API_init no_args = Inr demo_api
 \<and> API_init (no_args\<lparr>kw_proxy := Some (PStr [])\<rparr>) = Inr demo_api
 \<and> proxy demo_api = PDict []"
proof -
  note c = constructor_defaults [of no_args demo_api]
  have n: "no_args\<lparr>kw_proxy := None\<rparr> = no_args"
    by (simp add: no_args_def)
  have 1: "API_init no_args = Inr demo_api"
    using c by (simp add: demo_api_def)
  have 2: "API_init (no_args\<lparr>kw_proxy := None\<rparr>)
             = API_init (no_args\<lparr>kw_proxy := Some (PStr [])\<rparr>)"
    using c by blast
  have 3: "API_init (no_args\<lparr>kw_proxy := Some (PStr [])\<rparr>) = Inr demo_api"
    by (metis 1 2 n)
  have 4: "proxy demo_api = PDict []"
    by (simp add: demo_api_def)
  from 1 3 4 show ?thesis by blast
qed

text \<open>
  C8. The constructor raises \<open>TypeError\<close> for a parser that is not an instance of
  \<open>Parser\<close> only when the parser is a true value: \<open>parser or ModelParser()\<close> replaces
  every false value, not only \<open>None\<close>. \<open>API(parser=0)\<close> and \<open>API(parser='')\<close> succeed
  with a \<open>ModelParser\<close>, where \<open>API(parser=1)\<close> raises.
\<close>

theorem falsy_parser_accepted:
  "API_init (no_args\<lparr>kw_parser := Some (PInt 0)\<rparr>) = Inr demo_api
 \<and> PInt 0 \<noteq> PNone \<and> \<not> isinstance_Parser (PInt 0)
 \<and> API_init (no_args\<lparr>kw_parser := Some (PStr [])\<rparr>) = Inr demo_api
 \<and> API_init (no_args\<lparr>kw_parser := Some (PInt 1)\<rparr>) = Inl (TypeError (PInt 1))"
  by (simp add: API_init_def no_args_def arg_or_def demo_api_def)

text \<open>
  What does hold of the parser: a constructed \<open>API\<close> has a parser that is an instance
  of \<open>Parser\<close>; a true value that is not one is rejected; \<open>None\<close>, given or left out,
  is replaced by a \<open>ModelParser\<close>.
\<close>

lemma parser_checked:
  "(API_init a = Inr self \<longrightarrow> isinstance_Parser (parser self))
 \<and> (kw_parser a = Some p \<and> truthy p \<and> \<not> isinstance_Parser p \<longrightarrow> API_init a = Inl (TypeError p))
 \<and> (kw_parser a = None \<or> kw_parser a = Some PNone \<longrightarrow>
      (\<exists>self. API_init a = Inr self \<and> parser self = PObject ModelParserInst))"
  by (auto simp: API_init_def arg_or_def Let_def split: if_splits)


end
